theory Spec2Isabelle
  imports Main
begin

section \<open>Python values, exceptions and the Postgres collaborator\<close>

text \<open>
  The module \<^verbatim>\<open>geonode/contrib/datatables/column_checker.py\<close> is Python 2. A value that
  may be \<^verbatim>\<open>None\<close> is a \<open>string option\<close>; a call that may raise returns a sum whose
  left injection is the exception. An exception carries its class name and its
  \<^verbatim>\<open>args\<close> tuple, already rendered as strings, because the handler of
  \<^verbatim>\<open>get_column_datatype\<close> reads \<^verbatim>\<open>e[0]\<close>.
\<close>

datatype pyexn = PyExn (exn_class: string) (exn_args: "string list")

text \<open>The error Python raises when the local \<^verbatim>\<open>conn\<close> is read before it is bound.\<close>

definition unbound_conn :: pyexn where
  "unbound_conn = PyExn ''UnboundLocalError''
     [''local variable '' @ [CHR 0x27] @ ''conn'' @ [CHR 0x27] @ '' referenced before assignment'']"

text \<open>\<^verbatim>\<open>e[0]\<close> on an exception whose \<^verbatim>\<open>args\<close> is empty.\<close>

definition index_error :: pyexn where
  "index_error = PyExn ''IndexError'' [''tuple index out of range'']"

text \<open>
  \<^verbatim>\<open>except Exception\<close> catches every class but the three of Python 2 that derive from
  \<^verbatim>\<open>BaseException\<close> directly.
\<close>

definition is_Exception :: "pyexn \<Rightarrow> bool" where
  "is_Exception e =
     (exn_class e \<notin> set [''KeyboardInterrupt'', ''SystemExit'', ''GeneratorExit''])"

text \<open>\<^verbatim>\<open>'%s' % v\<close> and \<^verbatim>\<open>'{0}'.format(v)\<close>: \<^verbatim>\<open>None\<close> renders as the text None.\<close>

definition py_str :: "string option \<Rightarrow> string" where
  "py_str v = (case v of None \<Rightarrow> ''None'' | Some t \<Rightarrow> t)"

text \<open>
  What one connection of \<^verbatim>\<open>psycopg2\<close> does: \<^verbatim>\<open>cursor()\<close> may raise; \<^verbatim>\<open>execute(stmt)\<close>
  raises or makes a first row available (\<open>None\<close>: no row; a row is a tuple of columns,
  each a string or SQL NULL); \<^verbatim>\<open>commit()\<close> may raise. \<^verbatim>\<open>close()\<close> does not raise. What
  is raised may be of any class, also one outside \<^verbatim>\<open>Exception\<close> (an interrupt or an
  exit request arriving during the call). The database is a function from
  the number of the connection attempt to its outcome, so that successive attempts
  may differ; \<^verbatim>\<open>get_datastore_connection_string()\<close> is evaluated inside the same
  \<^verbatim>\<open>try\<close> as \<^verbatim>\<open>psycopg2.connect\<close> and is part of the attempt. The state counts the
  attempts and the connections that are open, and lists the statements executed and
  the records sent to \<^verbatim>\<open>LOGGER.error\<close>; what \<^verbatim>\<open>traceback.print_exc\<close> writes to the
  standard error stream is left out.
\<close>

record conn =
  on_cursor :: "pyexn option"
  on_execute :: "string \<Rightarrow> pyexn + string option list option"
  on_commit :: "pyexn option"

type_synonym db = "nat \<Rightarrow> pyexn + conn"

datatype log_record =
  Log_error string
  | Log_stmt_exn string pyexn

record pg =
  attempts :: nat
  open_conns :: nat
  executed :: "string list"
  commits :: nat
  logged :: "log_record list"

definition connect :: "db \<Rightarrow> pg \<Rightarrow> (pyexn + conn) \<times> pg" where
  "connect d s =
     (case d (attempts s) of
        Inl e \<Rightarrow> (Inl e, s\<lparr>attempts := Suc (attempts s)\<rparr>)
      | Inr c \<Rightarrow> (Inr c, s\<lparr>attempts := Suc (attempts s), open_conns := Suc (open_conns s)\<rparr>))"

definition close :: "pg \<Rightarrow> pg" where
  "close s = s\<lparr>open_conns := open_conns s - 1\<rparr>"

text \<open>\<^verbatim>\<open>cur = conn.cursor(); cur.execute(stmt)\<close>, giving the first row that
  \<^verbatim>\<open>fetchone()\<close> would return.\<close>

definition cursor_execute ::
  "conn \<Rightarrow> string \<Rightarrow> pg \<Rightarrow> (pyexn + string option list option) \<times> pg" where
  "cursor_execute c stmt s =
     (case on_cursor c of
        Some e \<Rightarrow> (Inl e, s)
      | None \<Rightarrow> (on_execute c stmt, s\<lparr>executed := executed s @ [stmt]\<rparr>))"

text \<open>\<^verbatim>\<open>cur.fetchone()[0]\<close>: subscripting \<^verbatim>\<open>None\<close> is a TypeError.\<close>

definition fetchone_0 :: "string option list option \<Rightarrow> pyexn + string option" where
  "fetchone_0 row =
     (case row of
        None \<Rightarrow> Inl (PyExn ''TypeError''
          [[CHR 0x27] @ ''NoneType'' @ [CHR 0x27] @ '' object has no attribute ''
             @ [CHR 0x27] @ ''__getitem__'' @ [CHR 0x27]])
      | Some [] \<Rightarrow> Inl index_error
      | Some (v # _) \<Rightarrow> Inr v)"

section \<open>The type literals and the two membership tests\<close>

definition POSTGRES_CHAR_DATATYPES :: "string list" where
  "POSTGRES_CHAR_DATATYPES =
     [''character varying'', ''varchar'', ''character'', ''char'', ''text'']"

definition POSTGRES_NUMERIC_DATATYPES :: "string list" where
  "POSTGRES_NUMERIC_DATATYPES =
     [''smallint'', ''integer'', ''bigint'', ''decimal'', ''numeric'', ''real'',
      ''double precision'', ''smallserial'', ''serial'', ''bigserial'']"

definition is_character_column :: "string option \<Rightarrow> bool" where
  "is_character_column data_type =
     (case data_type of
        None \<Rightarrow> False
      | Some t \<Rightarrow> if t \<in> set POSTGRES_CHAR_DATATYPES then True else False)"

definition is_numeric_column :: "string option \<Rightarrow> bool" where
  "is_numeric_column data_type =
     (case data_type of
        None \<Rightarrow> False
      | Some t \<Rightarrow> if t \<in> set POSTGRES_NUMERIC_DATATYPES then True else False)"

definition get_type_text_char_or_numeric :: "string option \<Rightarrow> string option" where
  \<open>get_type_text_char_or_numeric data_type =
     (if data_type = None then None
      else if is_character_column data_type then Some ''a "character"''
      else if is_numeric_column data_type then Some ''a "numeric"''
      else Some ''neither a character nor a numeric'')\<close>

section \<open>The checker\<close>

record checker =
  target_table :: "string option"
  target_attribute :: "string option"
  dt_table :: "string option"
  dt_attribute :: "string option"

type_synonym 'a py = "(pyexn + 'a) \<times> pg"

definition get_column_datatype ::
  "db \<Rightarrow> string option \<Rightarrow> string option \<Rightarrow> pg \<Rightarrow> (bool \<times> string option) py" where
  "get_column_datatype d table_name table_attribute s =
     (if table_name = None \<or> table_attribute = None then
        (Inr (False, Some ''The table_name and table_attribute must be specified.''), s)
      else
        let sql_target_data_type =
              ''SELECT data_type '' @ ''FROM information_schema.columns '' @
              ''WHERE table_name = '' @ [CHR 0x27] @ py_str table_name @ [CHR 0x27] @
              '' AND column_name='' @ [CHR 0x27] @ py_str table_attribute @ [CHR 0x27] @ '';''
        in case connect d s of
             (Inl e, s1) \<Rightarrow>
               if \<not> is_Exception e then (Inl e, s1) else (Inl unbound_conn, s1)
           | (Inr c, s1) \<Rightarrow>
               (case (case cursor_execute c sql_target_data_type s1 of
                        (Inl e, s2) \<Rightarrow> (Inl e, s2)
                      | (Inr row, s2) \<Rightarrow> (fetchone_0 row, s2)) of
                  (Inr data_type, s2) \<Rightarrow> (Inr (True, data_type), close s2)
                | (Inl e, s2) \<Rightarrow>
                    if \<not> is_Exception e then (Inl e, s2)
                    else
                      let s3 = close s2
                      in (case exn_args e of
                            [] \<Rightarrow> (Inl index_error, s3)
                          | a # _ \<Rightarrow>
                              let err_msg = ''Error finding data type for column '' @ [CHR 0x27]
                                    @ py_str table_attribute @ [CHR 0x27] @ '' in table ''
                                    @ [CHR 0x27] @ py_str table_name @ [CHR 0x27] @ '': '' @ a
                              in (Inr (False, Some err_msg),
                                  s3\<lparr>logged := logged s3 @ [Log_error err_msg]\<rparr>))))"

definition alter_column_to_var ::
  "db \<Rightarrow> string option \<Rightarrow> string option \<Rightarrow> pg \<Rightarrow> (bool \<times> string option) py" where
  "alter_column_to_var d table_name attr_name s =
     (if table_name = None then (Inr (False, Some ''table_name cannot be None''), s)
      else if attr_name = None then (Inr (False, Some ''attr_name cannot be None''), s)
      else
        let stmt = ''ALTER TABLE '' @ py_str table_name @ '' ALTER COLUMN'' @
                   '' '' @ py_str attr_name @ '' TYPE varchar(255) USING '' @
                   py_str attr_name @ ''::varchar;''
        in case connect d s of
             (Inl e, s1) \<Rightarrow>
               if \<not> is_Exception e then (Inl unbound_conn, s1)
               else (Inl unbound_conn, s1\<lparr>logged := logged s1 @ [Log_stmt_exn stmt e]\<rparr>)
           | (Inr c, s1) \<Rightarrow>
               (case (case cursor_execute c stmt s1 of
                        (Inl e, s2) \<Rightarrow> (Inl e, s2)
                      | (Inr row, s2) \<Rightarrow>
                          (case on_commit c of
                             Some e \<Rightarrow> (Inl e, s2)
                           | None \<Rightarrow> (Inr (), s2\<lparr>commits := Suc (commits s2)\<rparr>))) of
                  (Inr u, s3) \<Rightarrow> (Inr (True, None), close s3)
                | (Inl e, s3) \<Rightarrow>
                    if \<not> is_Exception e then (Inl e, close s3)
                    else
                      (Inr (False,
                         Some ''Error when trying to convert numeric column to character''),
                       close (s3\<lparr>logged := logged s3 @ [Log_stmt_exn stmt e]\<rparr>))))"

text \<open>The explanation both public operations format on an incompatible pair:
  \<^verbatim>\<open>.format(self.dt_attribute, dt_type_text, self.target_attribute, target_type_text)\<close>.\<close>

definition err_msg_format ::
  "string option \<Rightarrow> string option \<Rightarrow> string option \<Rightarrow> string option \<Rightarrow> string" where
  \<open>err_msg_format a0 a1 a2 a3 =
     ''<br />Your chosen column "'' @ py_str a0 @ ''" is type '' @ py_str a1 @
     ''.  However, the chosen layer column "'' @ py_str a2 @ ''" is type '' @ py_str a3\<close>

definition get_column_join_stmt :: "db \<Rightarrow> checker \<Rightarrow> bool \<Rightarrow> pg \<Rightarrow> (bool \<times> string option) py" where
  \<open>get_column_join_stmt d self with_casting s =
     (case get_column_datatype d (target_table self) (target_attribute self) s of
        (Inl e, s1) \<Rightarrow> (Inl e, s1)
      | (Inr (retrieved, target_data_type), s1) \<Rightarrow>
          if \<not> retrieved then (Inr (False, Some ''Sorry, the target column is not available.''), s1)
          else
            (case get_column_datatype d (dt_table self) (dt_attribute self) s1 of
               (Inl e, s2) \<Rightarrow> (Inl e, s2)
             | (Inr (was_retrieved, datatable_data_type), s2) \<Rightarrow>
                 if \<not> was_retrieved then
                   (Inr (False, Some ''The data type of your column was not available''), s2)
                 else
                   let join_clause = py_str (target_table self) @ ''."'' @
                         py_str (target_attribute self) @ ''" = '' @ py_str (dt_table self) @
                         ''."'' @ py_str (dt_attribute self) @ ''"'';
                       no_join =
                         (Inr (False, Some (err_msg_format (dt_attribute self)
                             (get_type_text_char_or_numeric datatable_data_type)
                             (target_attribute self)
                             (get_type_text_char_or_numeric target_data_type))), s2)
                   in if target_data_type = datatable_data_type then
                        (Inr (True, Some join_clause), s2)
                      else if is_character_column target_data_type \<and>
                              is_character_column datatable_data_type then
                        (Inr (True, Some join_clause), s2)
                      else if is_numeric_column target_data_type \<and>
                              is_numeric_column datatable_data_type then
                        (Inr (True, Some join_clause), s2)
                      else if False then
                        (if is_character_column target_data_type \<and>
                            is_numeric_column datatable_data_type then
                           (case alter_column_to_var d (dt_table self) (dt_attribute self) s2 of
                              (Inl e, s3) \<Rightarrow> (Inl e, s3)
                            | (Inr (success, msg), s3) \<Rightarrow>
                                if success then (Inr (True, Some join_clause), s3)
                                else (Inr (False, msg), s3))
                         else no_join)
                      else no_join))\<close>

definition are_join_columns_compatible :: "db \<Rightarrow> checker \<Rightarrow> pg \<Rightarrow> (bool \<times> string option) py" where
  \<open>are_join_columns_compatible d self s =
     (case get_column_datatype d (target_table self) (target_attribute self) s of
        (Inl e, s1) \<Rightarrow> (Inl e, s1)
      | (Inr (retrieved, target_data_type), s1) \<Rightarrow>
          if \<not> retrieved then (Inr (False, Some ''Sorry, the target column is not available.''), s1)
          else
            (case get_column_datatype d (dt_table self) (dt_attribute self) s1 of
               (Inl e, s2) \<Rightarrow> (Inl e, s2)
             | (Inr (was_retrieved, datatable_data_type), s2) \<Rightarrow>
                 if \<not> was_retrieved then
                   (Inr (False, Some ''The data type of your column was not available''), s2)
                 else if target_data_type = datatable_data_type then (Inr (True, None), s2)
                 else if is_character_column target_data_type \<and>
                         is_character_column datatable_data_type then (Inr (True, None), s2)
                 else if is_numeric_column target_data_type \<and>
                         is_numeric_column datatable_data_type then (Inr (True, None), s2)
                 else
                   (Inr (False, Some (err_msg_format (dt_attribute self)
                       (get_type_text_char_or_numeric datatable_data_type)
                       (target_attribute self)
                       (get_type_text_char_or_numeric target_data_type))), s2)))\<close>

section \<open>The classification in the words of the specification\<close>

text \<open>
  The source has no function that returns a class; the specification's
  \<^verbatim>\<open>classifyType\<close> is written here from its own words (section 4.1 and the two literal
  sets of section 3), with the text the specification gives each class, to be
  compared with the three source functions above.
\<close>

datatype column_type_class = Unknown | Character | Numeric | Other

definition classifyType_spec :: "string option \<Rightarrow> column_type_class" where
  "classifyType_spec typeString =
     (case typeString of
        None \<Rightarrow> Unknown
      | Some t \<Rightarrow>
          if t \<in> {''character varying'', ''varchar'', ''character'', ''char'', ''text''}
          then Character
          else if t \<in> {''smallint'', ''integer'', ''bigint'', ''decimal'', ''numeric'', ''real'',
                        ''double precision'', ''smallserial'', ''serial'', ''bigserial''}
          then Numeric
          else Other)"

fun class_text_spec :: "column_type_class \<Rightarrow> string option" where
  \<open>class_text_spec Unknown = None\<close>
| \<open>class_text_spec Character = Some ''a "character"''\<close>
| \<open>class_text_spec Numeric = Some ''a "numeric"''\<close>
| \<open>class_text_spec Other = Some ''neither a character nor a numeric''\<close>

section \<open>Concrete databases and checkers\<close>

definition pg0 :: pg where
  "pg0 = \<lparr>attempts = 0, open_conns = 0, executed = [], commits = 0, logged = []\<rparr>"

text \<open>A connection on which every statement succeeds with the given first row.\<close>

definition row_conn :: "string option list option \<Rightarrow> conn" where
  "row_conn r = \<lparr>on_cursor = None, on_execute = (\<lambda>stmt. Inr r), on_commit = None\<rparr>"

text \<open>The first connection reports type \<open>t\<close>, every later one type \<open>u\<close>.\<close>

definition two_types_db :: "string option \<Rightarrow> string option \<Rightarrow> db" where
  "two_types_db t u n = Inr (row_conn (Some [if n = 0 then t else u]))"

text \<open>The first connection reports type \<open>t\<close>, every later one finds no row.\<close>

definition second_missing_db :: "string option \<Rightarrow> db" where
  "second_missing_db t n = Inr (row_conn (if n = 0 then Some [t] else None))"

text \<open>No connection finds a row.\<close>

definition no_row_db :: db where
  "no_row_db n = Inr (row_conn None)"

text \<open>Every connection attempt raises.\<close>

definition down_db :: db where
  "down_db n = Inl (PyExn ''OperationalError'' [''could not connect to server''])"

text \<open>Every connection opens, and an interrupt arrives while the statement runs.\<close>

definition interrupted_db :: db where
  "interrupted_db n =
     Inr \<lparr>on_cursor = None, on_execute = (\<lambda>stmt. Inl (PyExn ''KeyboardInterrupt'' [])),
          on_commit = None\<rparr>"

definition parcels_census :: checker where
  "parcels_census = \<lparr>target_table = Some ''parcels'', target_attribute = Some ''geoid'',
     dt_table = Some ''census'', dt_attribute = Some ''geoid''\<rparr>"

definition swapped :: "checker \<Rightarrow> checker" where
  "swapped self = \<lparr>target_table = dt_table self, target_attribute = dt_attribute self,
     dt_table = target_table self, dt_attribute = target_attribute self\<rparr>"

section \<open>Evaluation on concrete inputs\<close>

lemmas run_defs =
  get_column_datatype_def alter_column_to_var_def connect_def close_def cursor_execute_def
  fetchone_0_def py_str_def pg0_def row_conn_def two_types_db_def second_missing_db_def
  no_row_db_def down_db_def interrupted_db_def is_Exception_def parcels_census_def swapped_def unbound_conn_def index_error_def
  Let_def

lemmas class_defs =
  is_character_column_def is_numeric_column_def get_type_text_char_or_numeric_def
  POSTGRES_CHAR_DATATYPES_def POSTGRES_NUMERIC_DATATYPES_def

section \<open>What the two public operations do once both lookups have succeeded\<close>

lemma are_join_after_lookups:
  assumes "fst (get_column_datatype d (target_table self) (target_attribute self) s)
             = Inr (True, t)"
    and "fst (get_column_datatype d (dt_table self) (dt_attribute self)
           (snd (get_column_datatype d (target_table self) (target_attribute self) s)))
             = Inr (True, u)"
  shows "are_join_columns_compatible d self s =
     (if t = u \<or> is_character_column t \<and> is_character_column u
          \<or> is_numeric_column t \<and> is_numeric_column u
      then Inr (True, None)
      else Inr (False, Some (err_msg_format (dt_attribute self)
             (get_type_text_char_or_numeric u) (target_attribute self)
             (get_type_text_char_or_numeric t))),
      snd (get_column_datatype d (dt_table self) (dt_attribute self)
           (snd (get_column_datatype d (target_table self) (target_attribute self) s))))"
  using assms
  by (auto simp: are_join_columns_compatible_def split: prod.splits sum.splits)

lemma join_stmt_after_lookups:
  assumes "fst (get_column_datatype d (target_table self) (target_attribute self) s)
             = Inr (True, t)"
    and "fst (get_column_datatype d (dt_table self) (dt_attribute self)
           (snd (get_column_datatype d (target_table self) (target_attribute self) s)))
             = Inr (True, u)"
  shows \<open>get_column_join_stmt d self with_casting s =
     (if t = u \<or> is_character_column t \<and> is_character_column u
          \<or> is_numeric_column t \<and> is_numeric_column u
      then Inr (True, Some (py_str (target_table self) @ ''."'' @
             py_str (target_attribute self) @ ''" = '' @ py_str (dt_table self) @
             ''."'' @ py_str (dt_attribute self) @ ''"''))
      else Inr (False, Some (err_msg_format (dt_attribute self)
             (get_type_text_char_or_numeric u) (target_attribute self)
             (get_type_text_char_or_numeric t))),
      snd (get_column_datatype d (dt_table self) (dt_attribute self)
           (snd (get_column_datatype d (target_table self) (target_attribute self) s))))\<close>
  using assms
  by (auto simp: get_column_join_stmt_def Let_def split: prod.splits sum.splits)

lemma lookup_success_present:
  "fst (get_column_datatype d tn ta s) = Inr (True, t) \<Longrightarrow> tn \<noteq> None \<and> ta \<noteq> None"
  by (auto simp: get_column_datatype_def split: if_splits)

lemma character_not_numeric: "is_character_column t \<Longrightarrow> \<not> is_numeric_column t"
  by (cases t) (auto simp: class_defs split: if_splits)

lemma alter_attempts:
  "tn \<noteq> None \<Longrightarrow> an \<noteq> None \<Longrightarrow>
     attempts (snd (alter_column_to_var d tn an s)) = Suc (attempts s)"
  by (auto simp: alter_column_to_var_def connect_def close_def cursor_execute_def Let_def
      split: prod.splits sum.splits option.splits)

text \<open>
  The slip in both database operations: when the connection attempt raises, \<^verbatim>\<open>conn\<close>
  was never bound, so \<^verbatim>\<open>if conn:\<close> in the handler of \<^verbatim>\<open>get_column_datatype\<close> and
  \<^verbatim>\<open>conn.close()\<close> in the \<^verbatim>\<open>finally\<close> of \<^verbatim>\<open>alter_column_to_var\<close> raise
  UnboundLocalError, which leaves the function in place of the error pair. (A class
  outside \<^verbatim>\<open>Exception\<close> passes the handler of \<^verbatim>\<open>get_column_datatype\<close> by and leaves
  it as it is.)
\<close>

lemma failed_connect_raises:
  "d (attempts s) = Inl e \<Longrightarrow> is_Exception e \<Longrightarrow>
     fst (get_column_datatype d (Some tn) (Some ta) s) = Inl unbound_conn \<and>
     fst (alter_column_to_var d (Some tn) (Some ta) s) = Inl unbound_conn"
  by (simp add: get_column_datatype_def alter_column_to_var_def connect_def)

text \<open>
  Where the connections are released. \<^verbatim>\<open>alter_column_to_var\<close> closes in a
  \<^verbatim>\<open>finally\<close>: on every path the number of open connections at its exit is the number
  at its entry. \<^verbatim>\<open>get_column_datatype\<close> closes at the end of its \<^verbatim>\<open>try\<close> and in its
  \<^verbatim>\<open>except Exception\<close> handler: the same holds for it whenever it returns or raises an
  exception of a class under \<^verbatim>\<open>Exception\<close>.
\<close>

lemma alter_releases:
  "open_conns (snd (alter_column_to_var d table_name attr_name s)) = open_conns s"
  by (auto simp: alter_column_to_var_def connect_def close_def cursor_execute_def Let_def
      split: prod.splits sum.splits option.splits)

lemma lookup_releases_when_caught:
  "(case fst (get_column_datatype d table_name table_attribute s) of
      Inl e \<Rightarrow> is_Exception e | Inr r \<Rightarrow> True) \<Longrightarrow>
   open_conns (snd (get_column_datatype d table_name table_attribute s)) = open_conns s"
  by (auto simp: get_column_datatype_def connect_def close_def cursor_execute_def Let_def
      split: prod.splits sum.splits option.splits list.splits if_splits)

section \<open>The claims\<close>

text \<open>
  C6. Every input has exactly one class. The source's \<^verbatim>\<open>is_character_column\<close>,
  \<^verbatim>\<open>is_numeric_column\<close> and \<^verbatim>\<open>get_type_text_char_or_numeric\<close> agree with the
  specification's \<^verbatim>\<open>classifyType\<close>: a type is a character column exactly when it
  classifies as Character, a numeric column exactly when it classifies as Numeric,
  and the text the source gives it is the text of its class; no type is both; the
  class is Unknown exactly for \<^verbatim>\<open>None\<close>, which is therefore distinct from Other;
  \<^verbatim>\<open>geometry\<close> is Other; the match is exact (case-sensitive, untrimmed).
\<close>

theorem classify_agrees_with_source:
  "is_character_column x = (classifyType_spec x = Character) \<and>
   is_numeric_column x = (classifyType_spec x = Numeric) \<and>
   get_type_text_char_or_numeric x = class_text_spec (classifyType_spec x) \<and>
   \<not> (is_character_column x \<and> is_numeric_column x) \<and>
   (classifyType_spec x = Unknown) = (x = None) \<and>
   classifyType_spec None = Unknown \<and>
   classifyType_spec (Some ''geometry'') = Other \<and>
   classifyType_spec (Some ''Text'') = Other \<and>
   classifyType_spec (Some '' text'') = Other \<and>
   classifyType_spec (Some ''text '') = Other"
  by (cases x) (simp_all add: class_defs classifyType_spec_def)

text \<open>
  C1. When both lookups succeed with the raw types \<open>t\<close> and \<open>u\<close>,
  \<^verbatim>\<open>are_join_columns_compatible\<close> returns \<^verbatim>\<open>(True, None)\<close> if and only if the raw
  types are equal, or both are character types, or both are numeric types, and it
  returns \<^verbatim>\<open>(False, explanation)\<close> in every other case. Equal raw types outside both
  sets, such as \<^verbatim>\<open>uuid\<close> on both sides, are compatible.
\<close>

theorem compatible_iff_equal_or_same_class:
  assumes "fst (get_column_datatype d (target_table self) (target_attribute self) s)
             = Inr (True, t)"
    and "fst (get_column_datatype d (dt_table self) (dt_attribute self)
           (snd (get_column_datatype d (target_table self) (target_attribute self) s)))
             = Inr (True, u)"
  shows "(fst (are_join_columns_compatible d self s) = Inr (True, None)) =
           (t = u \<or> is_character_column t \<and> is_character_column u
              \<or> is_numeric_column t \<and> is_numeric_column u) \<and>
         (fst (are_join_columns_compatible d self s) =
            Inr (False, Some (err_msg_format (dt_attribute self)
              (get_type_text_char_or_numeric u) (target_attribute self)
              (get_type_text_char_or_numeric t)))) =
           (\<not> (t = u \<or> is_character_column t \<and> is_character_column u
              \<or> is_numeric_column t \<and> is_numeric_column u))"
  by (simp add: are_join_after_lookups [OF assms])

theorem compatible_iff_equal_or_same_class_witness:
  "fst (are_join_columns_compatible (two_types_db (Some ''uuid'') (Some ''uuid''))
          parcels_census pg0) = Inr (True, None) \<and>
   \<not> is_character_column (Some ''uuid'') \<and> \<not> is_numeric_column (Some ''uuid'') \<and>
   fst (are_join_columns_compatible (two_types_db (Some ''text'') (Some ''varchar''))
          parcels_census pg0) = Inr (True, None) \<and>
   fst (are_join_columns_compatible (two_types_db (Some ''integer'') (Some ''bigint''))
          parcels_census pg0) = Inr (True, None) \<and>
   fst (are_join_columns_compatible (two_types_db (Some ''text'') (Some ''integer''))
          parcels_census pg0) \<noteq> Inr (True, None)"
proof -
  have l1: "fst (get_column_datatype (two_types_db (Some a) (Some b))
      (target_table parcels_census) (target_attribute parcels_census) pg0) = Inr (True, Some a)"
    for a b by (simp add: run_defs)
  have l2: "fst (get_column_datatype (two_types_db (Some a) (Some b))
      (dt_table parcels_census) (dt_attribute parcels_census)
      (snd (get_column_datatype (two_types_db (Some a) (Some b))
         (target_table parcels_census) (target_attribute parcels_census) pg0)))
      = Inr (True, Some b)"
    for a b by (simp add: run_defs)
  show ?thesis
    using compatible_iff_equal_or_same_class [OF l1 l2, of "''uuid''" "''uuid''"]
      compatible_iff_equal_or_same_class [OF l1 l2, of "''text''" "''varchar''"]
      compatible_iff_equal_or_same_class [OF l1 l2, of "''integer''" "''bigint''"]
      compatible_iff_equal_or_same_class [OF l1 l2, of "''text''" "''integer''"]
    by (simp add: class_defs)
qed

text \<open>
  C2. \<^verbatim>\<open>get_column_join_stmt\<close> and \<^verbatim>\<open>are_join_columns_compatible\<close> agree on every
  database, checker, flag and state: they raise the same exception or return the same
  success flag, on failure the same message, and they leave the same state; only the
  payload of a success differs (the join clause against \<^verbatim>\<open>None\<close>).
\<close>

theorem join_stmt_agrees_with_compatible:
  "are_join_columns_compatible d self s =
     (case get_column_join_stmt d self with_casting s of
        (Inr (True, join_clause), s') \<Rightarrow> (Inr (True, None), s')
      | r \<Rightarrow> r)"
  by (auto simp: are_join_columns_compatible_def get_column_join_stmt_def Let_def
      split: prod.splits sum.splits)

text \<open>
  C3. The casting branch of \<^verbatim>\<open>get_column_join_stmt\<close> is guarded by \<^verbatim>\<open>if False\<close>. On a
  pair of successful lookups where one type is a character type and the other a
  numeric type, the operation returns \<^verbatim>\<open>(False, explanation)\<close> for every value of
  \<^verbatim>\<open>with_casting\<close>, and the state it leaves is the state after the two lookups:
  \<^verbatim>\<open>alter_column_to_var\<close> did not run, since running it on the candidate column
  from that state would have changed the state.
\<close>

theorem cast_path_never_runs:
  assumes "fst (get_column_datatype d (target_table self) (target_attribute self) s)
             = Inr (True, t)"
    and "fst (get_column_datatype d (dt_table self) (dt_attribute self)
           (snd (get_column_datatype d (target_table self) (target_attribute self) s)))
             = Inr (True, u)"
    and "is_character_column t \<and> is_numeric_column u
           \<or> is_numeric_column t \<and> is_character_column u"
  shows "get_column_join_stmt d self with_casting s =
           (Inr (False, Some (err_msg_format (dt_attribute self)
              (get_type_text_char_or_numeric u) (target_attribute self)
              (get_type_text_char_or_numeric t))),
            snd (get_column_datatype d (dt_table self) (dt_attribute self)
              (snd (get_column_datatype d (target_table self) (target_attribute self) s)))) \<and>
         snd (alter_column_to_var d (dt_table self) (dt_attribute self)
                (snd (get_column_join_stmt d self with_casting s)))
           \<noteq> snd (get_column_join_stmt d self with_casting s)"
proof -
  from assms(3) have nc: "\<not> (is_character_column t \<and> is_character_column u)"
    and nn: "\<not> (is_numeric_column t \<and> is_numeric_column u)"
    using character_not_numeric by blast+
  from assms(3) have ne: "t \<noteq> u"
    using character_not_numeric by blast
  have r: "get_column_join_stmt d self with_casting s =
           (Inr (False, Some (err_msg_format (dt_attribute self)
              (get_type_text_char_or_numeric u) (target_attribute self)
              (get_type_text_char_or_numeric t))),
            snd (get_column_datatype d (dt_table self) (dt_attribute self)
              (snd (get_column_datatype d (target_table self) (target_attribute self) s))))"
    using nc nn ne by (simp add: join_stmt_after_lookups [OF assms(1,2)])
  from lookup_success_present [OF assms(2)]
  have "attempts (snd (alter_column_to_var d (dt_table self) (dt_attribute self) s2))
          = Suc (attempts s2)" for s2
    by (simp add: alter_attempts)
  then have "snd (alter_column_to_var d (dt_table self) (dt_attribute self) s2) \<noteq> s2" for s2
    by (metis n_not_Suc_n)
  with r show ?thesis by simp
qed

theorem cast_path_never_runs_witness:
  "get_column_join_stmt (two_types_db (Some ''text'') (Some ''integer'')) parcels_census True pg0
     = get_column_join_stmt (two_types_db (Some ''text'') (Some ''integer'')) parcels_census
         False pg0 \<and>
   fst (get_column_join_stmt (two_types_db (Some ''text'') (Some ''integer'')) parcels_census
         True pg0)
     = Inr (False, Some (err_msg_format (Some ''geoid'') (get_type_text_char_or_numeric
         (Some ''integer'')) (Some ''geoid'') (get_type_text_char_or_numeric (Some ''text'')))) \<and>
   attempts (snd (get_column_join_stmt (two_types_db (Some ''text'') (Some ''integer''))
         parcels_census True pg0)) = 2"
proof -
  let ?d = "two_types_db (Some ''text'') (Some ''integer'')"
  have l1: "fst (get_column_datatype ?d
      (target_table parcels_census) (target_attribute parcels_census) pg0)
      = Inr (True, Some ''text'')"
    by (simp add: run_defs)
  have l2: "fst (get_column_datatype ?d (dt_table parcels_census) (dt_attribute parcels_census)
      (snd (get_column_datatype ?d
         (target_table parcels_census) (target_attribute parcels_census) pg0)))
      = Inr (True, Some ''integer'')"
    by (simp add: run_defs)
  have c: "is_character_column (Some ''text'') \<and> is_numeric_column (Some ''integer'')
      \<or> is_numeric_column (Some ''text'') \<and> is_character_column (Some ''integer'')"
    by (simp add: class_defs)
  have st: "attempts (snd (get_column_datatype ?d
      (dt_table parcels_census) (dt_attribute parcels_census)
      (snd (get_column_datatype ?d
         (target_table parcels_census) (target_attribute parcels_census) pg0)))) = 2"
    by (simp add: run_defs)
  have da: "dt_attribute parcels_census = Some ''geoid''"
    "target_attribute parcels_census = Some ''geoid''"
    by (simp_all add: parcels_census_def)
  show ?thesis
    using cast_path_never_runs [OF l1 l2 c, of True] cast_path_never_runs [OF l1 l2 c, of False]
      st da
    by simp
qed

text \<open>
  C4. On a compatible pair \<^verbatim>\<open>get_column_join_stmt\<close> returns the fragment
  \<^verbatim>\<open>target_table."target_attribute" = dt_table."dt_attribute"\<close>: table names as they
  are, column names between double quotes, and no cast suffix. For the target
  \<^verbatim>\<open>("parcels", "geoid")\<close> and the candidate \<^verbatim>\<open>("census", "geoid")\<close> it is
  \<^verbatim>\<open>parcels."geoid" = census."geoid"\<close>.
\<close>

theorem join_clause_shape:
  assumes "fst (get_column_datatype d (target_table self) (target_attribute self) s)
             = Inr (True, t)"
    and "fst (get_column_datatype d (dt_table self) (dt_attribute self)
           (snd (get_column_datatype d (target_table self) (target_attribute self) s)))
             = Inr (True, u)"
    and "t = u \<or> is_character_column t \<and> is_character_column u
           \<or> is_numeric_column t \<and> is_numeric_column u"
    and "target_table self = Some tt" and "target_attribute self = Some ta"
    and "dt_table self = Some dtt" and "dt_attribute self = Some dta"
  shows \<open>fst (get_column_join_stmt d self with_casting s) =
           Inr (True, Some (tt @ ''."'' @ ta @ ''" = '' @ dtt @ ''."'' @ dta @ ''"''))\<close>
  using assms(3-7) by (simp add: join_stmt_after_lookups [OF assms(1,2)] py_str_def)

theorem join_clause_shape_witness:
  \<open>fst (get_column_join_stmt (two_types_db (Some ''text'') (Some ''varchar'')) parcels_census
          True pg0)
     = Inr (True, Some ''parcels."geoid" = census."geoid"'')\<close>
proof -
  let ?d = "two_types_db (Some ''text'') (Some ''varchar'')"
  have l1: "fst (get_column_datatype ?d
      (target_table parcels_census) (target_attribute parcels_census) pg0)
      = Inr (True, Some ''text'')"
    by (simp add: run_defs)
  have l2: "fst (get_column_datatype ?d (dt_table parcels_census) (dt_attribute parcels_census)
      (snd (get_column_datatype ?d
         (target_table parcels_census) (target_attribute parcels_census) pg0)))
      = Inr (True, Some ''varchar'')"
    by (simp add: run_defs)
  have c: "Some ''text'' = Some ''varchar''
      \<or> is_character_column (Some ''text'') \<and> is_character_column (Some ''varchar'')
      \<or> is_numeric_column (Some ''text'') \<and> is_numeric_column (Some ''varchar'')"
    by (simp add: class_defs)
  have f: "target_table parcels_census = Some ''parcels''"
    "target_attribute parcels_census = Some ''geoid''"
    "dt_table parcels_census = Some ''census''"
    "dt_attribute parcels_census = Some ''geoid''"
    by (simp_all add: parcels_census_def)
  show ?thesis
    using join_clause_shape [OF l1 l2 c f, of True] by simp
qed

text \<open>
  C5, as the claim states it, fails on the text of the messages: after a failed
  lookup of the target column the message is not
  \<^verbatim>\<open>the target column is not available.\<close> and after a failed lookup of the
  candidate column it is not \<^verbatim>\<open>the data type of your column was not available\<close>.
\<close>

theorem lookup_failure_message_counterexample:
  "fst (get_column_datatype no_row_db (target_table parcels_census)
       (target_attribute parcels_census) pg0) =
     Inr (False, Some (''Error finding data type for column '' @ [CHR 0x27] @ ''geoid''
       @ [CHR 0x27] @ '' in table '' @ [CHR 0x27] @ ''parcels'' @ [CHR 0x27] @ '': ''
       @ [CHR 0x27] @ ''NoneType'' @ [CHR 0x27] @ '' object has no attribute '' @ [CHR 0x27]
       @ ''__getitem__'' @ [CHR 0x27])) \<and>
   fst (are_join_columns_compatible no_row_db parcels_census pg0)
     \<noteq> Inr (False, Some ''the target column is not available.'') \<and>
   fst (get_column_datatype (second_missing_db (Some ''text'')) (target_table parcels_census)
       (target_attribute parcels_census) pg0) = Inr (True, Some ''text'') \<and>
   fst (get_column_datatype (second_missing_db (Some ''text'')) (dt_table parcels_census)
       (dt_attribute parcels_census)
       (snd (get_column_datatype (second_missing_db (Some ''text''))
          (target_table parcels_census) (target_attribute parcels_census) pg0))) =
     Inr (False, Some (''Error finding data type for column '' @ [CHR 0x27] @ ''geoid''
       @ [CHR 0x27] @ '' in table '' @ [CHR 0x27] @ ''census'' @ [CHR 0x27] @ '': ''
       @ [CHR 0x27] @ ''NoneType'' @ [CHR 0x27] @ '' object has no attribute '' @ [CHR 0x27]
       @ ''__getitem__'' @ [CHR 0x27])) \<and>
   fst (are_join_columns_compatible (second_missing_db (Some ''text'')) parcels_census pg0)
     \<noteq> Inr (False, Some ''the data type of your column was not available'')"
  by (simp add: are_join_columns_compatible_def run_defs)

text \<open>
  C5, amended. When the lookup of the target column returns a failure,
  \<^verbatim>\<open>are_join_columns_compatible\<close> returns
  \<^verbatim>\<open>(False, 'Sorry, the target column is not available.')\<close> and leaves the state the
  target lookup left: the candidate column is not looked up. When the target lookup
  succeeds and the lookup of the candidate column returns a failure, it returns
  \<^verbatim>\<open>(False, 'The data type of your column was not available')\<close>. Neither message is
  an explanation of incompatibility, whatever the columns and their types.
\<close>

theorem lookup_failure_messages:
  "(fst (get_column_datatype d (target_table self) (target_attribute self) s) = Inr (False, m)
      \<longrightarrow> are_join_columns_compatible d self s =
            (Inr (False, Some ''Sorry, the target column is not available.''),
             snd (get_column_datatype d (target_table self) (target_attribute self) s))) \<and>
   (fst (get_column_datatype d (target_table self) (target_attribute self) s) = Inr (True, t) \<and>
    fst (get_column_datatype d (dt_table self) (dt_attribute self)
          (snd (get_column_datatype d (target_table self) (target_attribute self) s)))
      = Inr (False, m')
      \<longrightarrow> are_join_columns_compatible d self s =
            (Inr (False, Some ''The data type of your column was not available''),
             snd (get_column_datatype d (dt_table self) (dt_attribute self)
               (snd (get_column_datatype d (target_table self) (target_attribute self) s))))) \<and>
   ''Sorry, the target column is not available.'' \<noteq> err_msg_format a0 a1 a2 a3 \<and>
   ''The data type of your column was not available'' \<noteq> err_msg_format a0 a1 a2 a3"
  by (auto simp: are_join_columns_compatible_def err_msg_format_def
      split: prod.splits sum.splits)

theorem lookup_failure_messages_witness:
  "are_join_columns_compatible no_row_db parcels_census pg0 =
     (Inr (False, Some ''Sorry, the target column is not available.''),
      snd (get_column_datatype no_row_db (target_table parcels_census)
             (target_attribute parcels_census) pg0)) \<and>
   attempts (snd (are_join_columns_compatible no_row_db parcels_census pg0)) = 1 \<and>
   fst (are_join_columns_compatible (second_missing_db (Some ''text'')) parcels_census pg0) =
     Inr (False, Some ''The data type of your column was not available'')"
proof -
  let ?m = "''Error finding data type for column '' @ [CHR 0x27] @ ''geoid'' @ [CHR 0x27]
     @ '' in table '' @ [CHR 0x27] @ ''parcels'' @ [CHR 0x27] @ '': '' @ [CHR 0x27]
     @ ''NoneType'' @ [CHR 0x27] @ '' object has no attribute '' @ [CHR 0x27]
     @ ''__getitem__'' @ [CHR 0x27]"
  let ?m' = "''Error finding data type for column '' @ [CHR 0x27] @ ''geoid'' @ [CHR 0x27]
     @ '' in table '' @ [CHR 0x27] @ ''census'' @ [CHR 0x27] @ '': '' @ [CHR 0x27]
     @ ''NoneType'' @ [CHR 0x27] @ '' object has no attribute '' @ [CHR 0x27]
     @ ''__getitem__'' @ [CHR 0x27]"
  have f1: "fst (get_column_datatype no_row_db (target_table parcels_census)
      (target_attribute parcels_census) pg0) = Inr (False, Some ?m)"
    by (simp add: run_defs)
  have a1: "attempts (snd (get_column_datatype no_row_db (target_table parcels_census)
      (target_attribute parcels_census) pg0)) = 1"
    by (simp add: run_defs)
  have l1: "fst (get_column_datatype (second_missing_db (Some ''text''))
      (target_table parcels_census) (target_attribute parcels_census) pg0)
      = Inr (True, Some ''text'')"
    by (simp add: run_defs)
  have f2: "fst (get_column_datatype (second_missing_db (Some ''text''))
      (dt_table parcels_census) (dt_attribute parcels_census)
      (snd (get_column_datatype (second_missing_db (Some ''text''))
         (target_table parcels_census) (target_attribute parcels_census) pg0)))
      = Inr (False, Some ?m')"
    by (simp add: run_defs)
  show ?thesis
    using lookup_failure_messages [of no_row_db parcels_census pg0 "Some ?m"]
      lookup_failure_messages [of "second_missing_db (Some ''text'')" parcels_census pg0 _
        "Some ''text''" "Some ?m'"]
      f1 a1 l1 f2
    by simp
qed

text \<open>
  C7. Validation of the parameters comes before any call to the database:
  \<^verbatim>\<open>get_column_datatype\<close> with \<^verbatim>\<open>None\<close> for the table name or for the column name
  returns \<^verbatim>\<open>(False, 'The table_name and table_attribute must be specified.')\<close> and
  leaves the state as it was (no connection attempt, no statement), and
  \<^verbatim>\<open>alter_column_to_var(None, attr_name)\<close> returns
  \<^verbatim>\<open>(False, 'table_name cannot be None')\<close>, a message that names the parameter, and
  leaves the state as it was.
\<close>

theorem missing_parameter_before_any_call:
  assumes "table_name = None \<or> table_attribute = None"
  shows "get_column_datatype d table_name table_attribute s =
           (Inr (False, Some ''The table_name and table_attribute must be specified.''), s) \<and>
         alter_column_to_var d None attr_name s =
           (Inr (False, Some ''table_name cannot be None''), s)"
  using assms by (auto simp: get_column_datatype_def alter_column_to_var_def)

theorem missing_parameter_before_any_call_witness:
  "get_column_datatype down_db None (Some ''geoid'') pg0 =
     (Inr (False, Some ''The table_name and table_attribute must be specified.''), pg0) \<and>
   get_column_datatype down_db (Some ''parcels'') None pg0 =
     (Inr (False, Some ''The table_name and table_attribute must be specified.''), pg0) \<and>
   alter_column_to_var down_db None (Some ''x'') pg0 =
     (Inr (False, Some ''table_name cannot be None''), pg0)"
proof -
  have h1: "(None :: string option) = None \<or> Some ''geoid'' = None" by simp
  have h2: "Some ''parcels'' = None \<or> (None :: string option) = None" by simp
  show ?thesis
    using missing_parameter_before_any_call [OF h1, of down_db pg0 "Some ''x''"]
      missing_parameter_before_any_call [OF h2, of down_db pg0 "Some ''x''"]
    by simp
qed

text \<open>
  C8. On every incompatible pair (both lookups succeed, the raw types differ and are
  neither both character nor both numeric) the explanation names the candidate
  column and the text of its type, then the target column and the text of its type.
  The text of a present type is one of \<^verbatim>\<open>a "character"\<close>, \<^verbatim>\<open>a "numeric"\<close> and
  \<^verbatim>\<open>neither a character nor a numeric\<close>; the text of an absent type is \<^verbatim>\<open>None\<close>,
  which the formatting renders as the word None: the operation returns its pair and
  raises nothing.
\<close>

theorem incompatible_explanation:
  assumes "fst (get_column_datatype d (target_table self) (target_attribute self) s)
             = Inr (True, t)"
    and "fst (get_column_datatype d (dt_table self) (dt_attribute self)
           (snd (get_column_datatype d (target_table self) (target_attribute self) s)))
             = Inr (True, u)"
    and "\<not> (t = u \<or> is_character_column t \<and> is_character_column u
           \<or> is_numeric_column t \<and> is_numeric_column u)"
  shows \<open>fst (are_join_columns_compatible d self s) =
           Inr (False, Some (''<br />Your chosen column "'' @ py_str (dt_attribute self) @
             ''" is type '' @ py_str (get_type_text_char_or_numeric u) @
             ''.  However, the chosen layer column "'' @ py_str (target_attribute self) @
             ''" is type '' @ py_str (get_type_text_char_or_numeric t))) \<and>
         dt_attribute self \<noteq> None \<and> target_attribute self \<noteq> None \<and>
         get_type_text_char_or_numeric (Some x) \<in>
           {Some ''a "character"'', Some ''a "numeric"'',
            Some ''neither a character nor a numeric''} \<and>
         get_type_text_char_or_numeric None = None \<and>
         py_str (get_type_text_char_or_numeric None) = ''None''\<close>
  using assms(3) lookup_success_present [OF assms(1)] lookup_success_present [OF assms(2)]
  by (simp add: are_join_after_lookups [OF assms(1,2)] err_msg_format_def
      get_type_text_char_or_numeric_def py_str_def)

theorem incompatible_explanation_witness:
  \<open>fst (are_join_columns_compatible (two_types_db (Some ''text'') (Some ''integer''))
          parcels_census pg0) =
     Inr (False, Some (''<br />Your chosen column "geoid" is type a "numeric".  '' @
       ''However, the chosen layer column "geoid" is type a "character"'')) \<and>
   fst (are_join_columns_compatible (two_types_db None (Some ''geometry''))
          parcels_census pg0) =
     Inr (False, Some (''<br />Your chosen column "geoid" is type neither a character '' @
       ''nor a numeric.  However, the chosen layer column "geoid" is type None''))\<close>
proof -
  have l1: "fst (get_column_datatype (two_types_db a b)
      (target_table parcels_census) (target_attribute parcels_census) pg0) = Inr (True, a)"
    for a b by (simp add: run_defs)
  have l2: "fst (get_column_datatype (two_types_db a b)
      (dt_table parcels_census) (dt_attribute parcels_census)
      (snd (get_column_datatype (two_types_db a b)
         (target_table parcels_census) (target_attribute parcels_census) pg0)))
      = Inr (True, b)"
    for a b by (simp add: run_defs)
  have c1: "\<not> (Some ''text'' = Some ''integer''
      \<or> is_character_column (Some ''text'') \<and> is_character_column (Some ''integer'')
      \<or> is_numeric_column (Some ''text'') \<and> is_numeric_column (Some ''integer''))"
    by (simp add: class_defs)
  have c2: "\<not> (None = Some ''geometry''
      \<or> is_character_column None \<and> is_character_column (Some ''geometry'')
      \<or> is_numeric_column None \<and> is_numeric_column (Some ''geometry''))"
    by (simp add: class_defs)
  show ?thesis
    using incompatible_explanation [OF l1 l2 c1] incompatible_explanation [OF l1 l2 c2]
    by (simp add: class_defs py_str_def parcels_census_def)
qed

text \<open>
  C9. The claim is that \<^verbatim>\<open>get_column_datatype\<close> and \<^verbatim>\<open>alter_column_to_var\<close> release
  the connection they acquired on every exit path, an exception included.
  \<^verbatim>\<open>get_column_datatype\<close> does not: its only cleanup outside the \<^verbatim>\<open>try\<close> body is the
  \<^verbatim>\<open>except Exception\<close> handler, and it has no \<^verbatim>\<open>finally\<close>. When an interrupt arrives
  while the statement runs, the lookup of \<^verbatim>\<open>parcels.geoid\<close> from the initial state
  raises the interrupt and exits with its connection open, whereas
  \<^verbatim>\<open>alter_column_to_var\<close>, which closes in a \<^verbatim>\<open>finally\<close>, raises the same interrupt
  from the same state with no connection open.
\<close>

theorem lookup_leaks_connection_on_interrupt:
  "fst (get_column_datatype interrupted_db (Some ''parcels'') (Some ''geoid'') pg0)
     = Inl (PyExn ''KeyboardInterrupt'' []) \<and>
   open_conns pg0 = 0 \<and>
   open_conns (snd (get_column_datatype interrupted_db (Some ''parcels'') (Some ''geoid'') pg0))
     = 1 \<and>
   fst (alter_column_to_var interrupted_db (Some ''parcels'') (Some ''geoid'') pg0)
     = Inl (PyExn ''KeyboardInterrupt'' []) \<and>
   open_conns (snd (alter_column_to_var interrupted_db (Some ''parcels'') (Some ''geoid'') pg0))
     = 0"
  by (simp add: run_defs)

text \<open>
  C10. The verdict is symmetric. If the lookups of a checker succeed with the types
  \<open>t\<close> (target) and \<open>u\<close> (candidate), and the lookups of the checker with the two
  column references swapped succeed with \<open>u\<close> and \<open>t\<close>, then
  \<^verbatim>\<open>are_join_columns_compatible\<close> returns the same success flag for both.
\<close>

theorem verdict_symmetric:
  assumes "fst (get_column_datatype d (target_table self) (target_attribute self) s)
             = Inr (True, t)"
    and "fst (get_column_datatype d (dt_table self) (dt_attribute self)
           (snd (get_column_datatype d (target_table self) (target_attribute self) s)))
             = Inr (True, u)"
    and "fst (get_column_datatype d' (dt_table self) (dt_attribute self) s') = Inr (True, u)"
    and "fst (get_column_datatype d' (target_table self) (target_attribute self)
           (snd (get_column_datatype d' (dt_table self) (dt_attribute self) s')))
             = Inr (True, t)"
  shows "\<exists>ok m m'. fst (are_join_columns_compatible d self s) = Inr (ok, m) \<and>
           fst (are_join_columns_compatible d' (swapped self) s') = Inr (ok, m')"
proof -
  have a: "fst (get_column_datatype d' (target_table (swapped self))
      (target_attribute (swapped self)) s') = Inr (True, u)"
    using assms(3) by (simp add: swapped_def)
  have b: "fst (get_column_datatype d' (dt_table (swapped self)) (dt_attribute (swapped self))
      (snd (get_column_datatype d' (target_table (swapped self))
         (target_attribute (swapped self)) s'))) = Inr (True, t)"
    using assms(4) by (simp add: swapped_def)
  show ?thesis
    by (auto simp: are_join_after_lookups [OF assms(1,2)] are_join_after_lookups [OF a b])
qed

theorem verdict_symmetric_witness:
  "fst (are_join_columns_compatible (two_types_db (Some ''text'') (Some ''integer''))
          parcels_census pg0) \<noteq> Inr (True, None) \<and>
   fst (are_join_columns_compatible (two_types_db (Some ''integer'') (Some ''text''))
          (swapped parcels_census) pg0) \<noteq> Inr (True, None) \<and>
   (\<exists>ok m m'.
      fst (are_join_columns_compatible (two_types_db (Some ''text'') (Some ''integer''))
             parcels_census pg0) = Inr (ok, m) \<and>
      fst (are_join_columns_compatible (two_types_db (Some ''integer'') (Some ''text''))
             (swapped parcels_census) pg0) = Inr (ok, m'))"
proof -
  have l1: "fst (get_column_datatype (two_types_db a b)
      (target_table parcels_census) (target_attribute parcels_census) pg0) = Inr (True, a)"
    for a b by (simp add: run_defs)
  have l2: "fst (get_column_datatype (two_types_db a b)
      (dt_table parcels_census) (dt_attribute parcels_census)
      (snd (get_column_datatype (two_types_db a b)
         (target_table parcels_census) (target_attribute parcels_census) pg0)))
      = Inr (True, b)"
    for a b by (simp add: run_defs)
  have l3: "fst (get_column_datatype (two_types_db b a)
      (dt_table parcels_census) (dt_attribute parcels_census) pg0) = Inr (True, b)"
    for a b by (simp add: run_defs)
  have l4: "fst (get_column_datatype (two_types_db b a)
      (target_table parcels_census) (target_attribute parcels_census)
      (snd (get_column_datatype (two_types_db b a)
         (dt_table parcels_census) (dt_attribute parcels_census) pg0)))
      = Inr (True, a)"
    for a b by (simp add: run_defs)
  have n1: "fst (are_join_columns_compatible (two_types_db (Some ''text'') (Some ''integer''))
          parcels_census pg0) \<noteq> Inr (True, None)"
    by (simp add: are_join_after_lookups [OF l1 l2] class_defs)
  from verdict_symmetric [OF l1 l2 l3 l4, of "Some ''text''" "Some ''integer''"]
  obtain ok m m' where
    r: "fst (are_join_columns_compatible (two_types_db (Some ''text'') (Some ''integer''))
             parcels_census pg0) = Inr (ok, m)"
      "fst (are_join_columns_compatible (two_types_db (Some ''integer'') (Some ''text''))
             (swapped parcels_census) pg0) = Inr (ok, m')"
    by blast
  have nok: "\<not> ok"
    using r(1) by (simp add: are_join_after_lookups [OF l1 l2] class_defs split: if_splits)
  have n2: "fst (are_join_columns_compatible (two_types_db (Some ''integer'') (Some ''text''))
          (swapped parcels_census) pg0) \<noteq> Inr (True, None)"
    using r(2) nok by auto
  from n1 n2 r show ?thesis by blast
qed

end
